theory Spec2Isabelle
  imports Main "HOL-Library.Word" "HOL-Library.Sublist"
begin

section \<open>The attest plan builder (package attest)\<close>

subsection \<open>Data\<close>

text \<open>
  \<open>time.Duration\<close> is a signed 64-bit count of nanoseconds. The builder only stores and
  copies durations, so the word is never read as a number here.
\<close>

type_synonym Duration = "64 word"

text \<open>
  A \<open>context.Context\<close> is an interface value that the builder stores and never inspects;
  it is represented by an opaque handle.
\<close>

type_synonym Context = nat

text \<open>
  Go pointers are addresses into a store. An address that the store does not map plays
  the role of the nil pointer: reading a field through it is a run-time panic.
\<close>

type_synonym ref = nat

text \<open>\<open>type timing int\<close> with its three \<open>iota\<close> constants.\<close>

datatype timing = TimingImmediate | TimingEventually | TimingConsistently

text \<open>
  Modelled from the spec: the declaration of the struct \<open>Config\<close> is not among the
  sources. The code reads its field \<open>DefaultRetryTimeout\<close>; the specification's data
  model lists a default retry timeout, a default consistency duration and a cancellation
  context.
\<close>

record Config =
  DefaultRetryTimeout :: Duration
  DefaultConsistencyDuration :: Duration
  cancellationContext :: Context

record PlanBase =
  timing :: timing
  timeout :: Duration
  ctx :: Context
  config :: ref

text \<open>
  \<open>HTTPPlan\<close> and \<open>CLIPlan\<close> embed \<open>PlanBase\<close>; record extension gives the embedded
  fields and the promoted methods. \<open>H\<close> is \<open>map[string]string\<close>.
\<close>

type_synonym H = "string \<rightharpoonup> string"

record HTTPPlan = PlanBase +
  "method" :: string
  url :: string
  headers :: H
  body :: string

record CLIPlan = PlanBase +
  command :: string
  args :: "string list"

text \<open>
  The declarations of \<open>AssertBase\<close>, \<open>HTTPAssert\<close> and \<open>CLIAssert\<close> are not among the
  sources; the fields are those of the composite literals in \<open>T()\<close>: the embedded
  \<open>AssertBase\<close> with its \<open>config\<close> pointer, and the \<open>plan\<close> pointer. The field names carry a
  prefix because \<open>config\<close> already names the field of \<open>PlanBase\<close>.
\<close>

record AssertBase =
  assert_config :: ref

record HTTPAssert = AssertBase +
  http_plan :: ref

record CLIAssert = AssertBase +
  cli_plan :: ref

text \<open>The store: the objects that pointers of each type refer to.\<close>

record heap =
  configs :: "ref \<rightharpoonup> Config"
  httpPlans :: "ref \<rightharpoonup> HTTPPlan"
  cliPlans :: "ref \<rightharpoonup> CLIPlan"

text \<open>
  A panic is a value: either the explicit \<open>panic(msg)\<close> of the builder, or the run-time
  panic of a nil pointer dereference.
\<close>

datatype fault = Panic string | NilDereference

subsection \<open>The timing state machine of \<open>PlanBase\<close>\<close>

text \<open>
  Each method receives \<open>b *PlanBase\<close> and mutates it in place. The model takes the value
  behind \<open>b\<close> and the store of configs, and returns the panic (if any) together with the
  value as the method left it: an assignment made before a panic stays made.
\<close>

definition setEventually ::
  "(ref \<rightharpoonup> Config) \<Rightarrow> 'a PlanBase_scheme \<Rightarrow> fault option \<times> 'a PlanBase_scheme" where
  "setEventually cs b =
     (let b1 = b\<lparr>timing := TimingEventually\<rparr> in
      case cs (config b1) of
        None \<Rightarrow> (Some NilDereference, b1)
      | Some c \<Rightarrow> (None, b1\<lparr>timeout := DefaultRetryTimeout c\<rparr>))"

definition setWithin ::
  "Duration \<Rightarrow> 'a PlanBase_scheme \<Rightarrow> fault option \<times> 'a PlanBase_scheme" where
  "setWithin d b =
     (if timing b \<noteq> TimingEventually
      then (Some (Panic ''Within() can only be called after Eventually()''), b)
      else (None, b\<lparr>timeout := d\<rparr>))"

definition setConsistently ::
  "(ref \<rightharpoonup> Config) \<Rightarrow> 'a PlanBase_scheme \<Rightarrow> fault option \<times> 'a PlanBase_scheme" where
  "setConsistently cs b =
     (let b1 = b\<lparr>timing := TimingConsistently\<rparr> in
      case cs (config b1) of
        None \<Rightarrow> (Some NilDereference, b1)
      | Some c \<Rightarrow> (None, b1\<lparr>timeout := DefaultRetryTimeout c\<rparr>))"

definition setFor ::
  "Duration \<Rightarrow> 'a PlanBase_scheme \<Rightarrow> fault option \<times> 'a PlanBase_scheme" where
  "setFor d b =
     (if timing b \<noteq> TimingConsistently
      then (Some (Panic ''For() can only be called after Consistently()''), b)
      else (None, b\<lparr>timeout := d\<rparr>))"

subsection \<open>\<open>HTTPPlan\<close>\<close>

text \<open>
  A method of \<open>*HTTPPlan\<close> takes the receiver \<open>p\<close> and the store; it returns the panic or
  the returned pointer, and the store as it left it.
\<close>

definition HTTPPlan_Eventually :: "ref \<Rightarrow> heap \<Rightarrow> (fault + ref) \<times> heap" where
  "HTTPPlan_Eventually p h =
     (case httpPlans h p of
        None \<Rightarrow> (Inl NilDereference, h)
      | Some pl \<Rightarrow>
          (case setEventually (configs h) pl of
             (Some e, pl') \<Rightarrow> (Inl e, h\<lparr>httpPlans := (httpPlans h)(p \<mapsto> pl')\<rparr>)
           | (None, pl') \<Rightarrow> (Inr p, h\<lparr>httpPlans := (httpPlans h)(p \<mapsto> pl')\<rparr>)))"

definition HTTPPlan_Within :: "Duration \<Rightarrow> ref \<Rightarrow> heap \<Rightarrow> (fault + ref) \<times> heap" where
  "HTTPPlan_Within d p h =
     (case httpPlans h p of
        None \<Rightarrow> (Inl NilDereference, h)
      | Some pl \<Rightarrow>
          (case setWithin d pl of
             (Some e, pl') \<Rightarrow> (Inl e, h\<lparr>httpPlans := (httpPlans h)(p \<mapsto> pl')\<rparr>)
           | (None, pl') \<Rightarrow> (Inr p, h\<lparr>httpPlans := (httpPlans h)(p \<mapsto> pl')\<rparr>)))"

definition HTTPPlan_Consistently :: "ref \<Rightarrow> heap \<Rightarrow> (fault + ref) \<times> heap" where
  "HTTPPlan_Consistently p h =
     (case httpPlans h p of
        None \<Rightarrow> (Inl NilDereference, h)
      | Some pl \<Rightarrow>
          (case setConsistently (configs h) pl of
             (Some e, pl') \<Rightarrow> (Inl e, h\<lparr>httpPlans := (httpPlans h)(p \<mapsto> pl')\<rparr>)
           | (None, pl') \<Rightarrow> (Inr p, h\<lparr>httpPlans := (httpPlans h)(p \<mapsto> pl')\<rparr>)))"

definition HTTPPlan_For :: "Duration \<Rightarrow> ref \<Rightarrow> heap \<Rightarrow> (fault + ref) \<times> heap" where
  "HTTPPlan_For d p h =
     (case httpPlans h p of
        None \<Rightarrow> (Inl NilDereference, h)
      | Some pl \<Rightarrow>
          (case setFor d pl of
             (Some e, pl') \<Rightarrow> (Inl e, h\<lparr>httpPlans := (httpPlans h)(p \<mapsto> pl')\<rparr>)
           | (None, pl') \<Rightarrow> (Inr p, h\<lparr>httpPlans := (httpPlans h)(p \<mapsto> pl')\<rparr>)))"

text \<open>
  \<open>T()\<close> builds a new \<open>HTTPAssert\<close> whose embedded \<open>AssertBase\<close> copies the pointer
  \<open>p.config\<close> and whose \<open>plan\<close> is the pointer \<open>p\<close> itself. The new object is returned as
  its value; the plan is not copied and the store is not written.
\<close>

definition HTTPPlan_T :: "ref \<Rightarrow> heap \<Rightarrow> (fault + HTTPAssert) \<times> heap" where
  "HTTPPlan_T p h =
     (case httpPlans h p of
        None \<Rightarrow> (Inl NilDereference, h)
      | Some pl \<Rightarrow> (Inr \<lparr>assert_config = config pl, http_plan = p\<rparr>, h))"

subsection \<open>\<open>CLIPlan\<close>\<close>

definition CLIPlan_Eventually :: "ref \<Rightarrow> heap \<Rightarrow> (fault + ref) \<times> heap" where
  "CLIPlan_Eventually p h =
     (case cliPlans h p of
        None \<Rightarrow> (Inl NilDereference, h)
      | Some pl \<Rightarrow>
          (case setEventually (configs h) pl of
             (Some e, pl') \<Rightarrow> (Inl e, h\<lparr>cliPlans := (cliPlans h)(p \<mapsto> pl')\<rparr>)
           | (None, pl') \<Rightarrow> (Inr p, h\<lparr>cliPlans := (cliPlans h)(p \<mapsto> pl')\<rparr>)))"

definition CLIPlan_Within :: "Duration \<Rightarrow> ref \<Rightarrow> heap \<Rightarrow> (fault + ref) \<times> heap" where
  "CLIPlan_Within d p h =
     (case cliPlans h p of
        None \<Rightarrow> (Inl NilDereference, h)
      | Some pl \<Rightarrow>
          (case setWithin d pl of
             (Some e, pl') \<Rightarrow> (Inl e, h\<lparr>cliPlans := (cliPlans h)(p \<mapsto> pl')\<rparr>)
           | (None, pl') \<Rightarrow> (Inr p, h\<lparr>cliPlans := (cliPlans h)(p \<mapsto> pl')\<rparr>)))"

definition CLIPlan_Consistently :: "ref \<Rightarrow> heap \<Rightarrow> (fault + ref) \<times> heap" where
  "CLIPlan_Consistently p h =
     (case cliPlans h p of
        None \<Rightarrow> (Inl NilDereference, h)
      | Some pl \<Rightarrow>
          (case setConsistently (configs h) pl of
             (Some e, pl') \<Rightarrow> (Inl e, h\<lparr>cliPlans := (cliPlans h)(p \<mapsto> pl')\<rparr>)
           | (None, pl') \<Rightarrow> (Inr p, h\<lparr>cliPlans := (cliPlans h)(p \<mapsto> pl')\<rparr>)))"

definition CLIPlan_For :: "Duration \<Rightarrow> ref \<Rightarrow> heap \<Rightarrow> (fault + ref) \<times> heap" where
  "CLIPlan_For d p h =
     (case cliPlans h p of
        None \<Rightarrow> (Inl NilDereference, h)
      | Some pl \<Rightarrow>
          (case setFor d pl of
             (Some e, pl') \<Rightarrow> (Inl e, h\<lparr>cliPlans := (cliPlans h)(p \<mapsto> pl')\<rparr>)
           | (None, pl') \<Rightarrow> (Inr p, h\<lparr>cliPlans := (cliPlans h)(p \<mapsto> pl')\<rparr>)))"

definition CLIPlan_T :: "ref \<Rightarrow> heap \<Rightarrow> (fault + CLIAssert) \<times> heap" where
  "CLIPlan_T p h =
     (case cliPlans h p of
        None \<Rightarrow> (Inl NilDereference, h)
      | Some pl \<Rightarrow> (Inr \<lparr>assert_config = config pl, cli_plan = p\<rparr>, h))"

subsection \<open>A concrete store\<close>

text \<open>
  One config at address 1 whose two defaults differ, a fresh HTTP plan at address 2 and a
  fresh CLI plan at address 3, both with Go's zero values for the timing fields.
\<close>

definition exConfig :: Config where
  "exConfig = \<lparr>DefaultRetryTimeout = 5, DefaultConsistencyDuration = 3,
     cancellationContext = 0\<rparr>"

definition exHTTPPlan :: HTTPPlan where
  "exHTTPPlan = \<lparr>timing = TimingImmediate, timeout = 0, ctx = 0, config = 1,
     method = ''GET'', url = ''/health'', headers = Map.empty, body = []\<rparr>"

definition exCLIPlan :: CLIPlan where
  "exCLIPlan = \<lparr>timing = TimingImmediate, timeout = 0, ctx = 0, config = 1,
     command = ''echo'', args = [''ok'']\<rparr>"

definition exHeap :: heap where
  "exHeap = \<lparr>configs = [1 \<mapsto> exConfig], httpPlans = [2 \<mapsto> exHTTPPlan],
     cliPlans = [3 \<mapsto> exCLIPlan]\<rparr>"

text \<open>
  The same store after \<open>Eventually().Within(9)\<close> on both plans, and after
  \<open>Consistently().For(9)\<close> on both plans.
\<close>

definition exHeapE :: heap where
  "exHeapE = exHeap\<lparr>
     httpPlans := [2 \<mapsto> exHTTPPlan\<lparr>timing := TimingEventually, timeout := 9\<rparr>],
     cliPlans := [3 \<mapsto> exCLIPlan\<lparr>timing := TimingEventually, timeout := 9\<rparr>]\<rparr>"

definition exHeapC :: heap where
  "exHeapC = exHeap\<lparr>
     httpPlans := [2 \<mapsto> exHTTPPlan\<lparr>timing := TimingConsistently, timeout := 9\<rparr>],
     cliPlans := [3 \<mapsto> exCLIPlan\<lparr>timing := TimingConsistently, timeout := 9\<rparr>]\<rparr>"

section \<open>The progress file (package state)\<close>

subsection \<open>The file system\<close>

text \<open>
  The calls into package \<open>os\<close> act on a file system. Errors are \<open>errno\<close> values; the ones
  named here are those the text below mentions, and any other behaves like \<open>EIO\<close>.
\<close>

type_synonym path = string

datatype os_error = ENOENT | EISDIR | EACCES | ENOSPC | EIO

text \<open>
  A regular file \<open>File re we bytes\<close> holds its bytes and two outcomes that its mode, its
  owner, the directories on the way to it and the medium decide: \<open>re\<close> is the error that
  reading it gives and \<open>we\<close> the error that opening it for writing gives, \<open>None\<close> where the
  operation succeeds. A file may thus be read-only, write-only, both or neither. A
  directory can neither be read as a file nor be opened for writing.
\<close>

datatype node = File "os_error option" "os_error option" string | Dir

text \<open>
  The state of the file system: its nodes and what it will answer to a write.
  \<^item> \<open>createError p\<close> is the error that creating a file at the free path \<open>p\<close> gives (no
    directory to hold it, no permission to add to that directory), \<open>None\<close> where the file
    can be created.
  \<^item> \<open>createdRead\<close> and \<open>createdWrite\<close> are the two outcomes of a file that this process
    has created with mode \<open>0644\<close> under its umask.
  \<^item> \<open>writeError p\<close> is the failure of writing to the opened file \<open>p\<close> (disk full, I/O
    error, failure on close) together with the number of bytes that got through, \<open>None\<close>
    where the write completes.
\<close>

record fs =
  nodes :: "path \<rightharpoonup> node"
  createError :: "path \<Rightarrow> os_error option"
  createdRead :: "os_error option"
  createdWrite :: "os_error option"
  writeError :: "path \<Rightarrow> (os_error \<times> nat) option"

text \<open>\<open>os.Stat\<close> followed by \<open>os.IsNotExist\<close> on its error.\<close>

definition os_IsNotExist :: "fs \<Rightarrow> path \<Rightarrow> bool" where
  "os_IsNotExist fs p = (nodes fs p = None)"

definition os_ReadFile :: "fs \<Rightarrow> path \<Rightarrow> os_error + string" where
  "os_ReadFile fs p =
     (case nodes fs p of
        None \<Rightarrow> Inl ENOENT
      | Some Dir \<Rightarrow> Inl EISDIR
      | Some (File re we bytes) \<Rightarrow>
          (case re of Some e \<Rightarrow> Inl e | None \<Rightarrow> Inr bytes))"

text \<open>
  \<open>os.WriteFile\<close> opens the file with \<open>O_WRONLY|O_CREATE|O_TRUNC\<close>, writes the bytes and
  closes it. When the open fails nothing changes. Once the file is open its old content
  is gone; \<open>writeBytes\<close> is the write and the close, which leave either all the bytes or,
  with an error, the part that got through. An existing file keeps its mode.
\<close>

definition writeBytes ::
  "path \<Rightarrow> os_error option \<Rightarrow> os_error option \<Rightarrow> string \<Rightarrow> fs \<Rightarrow> os_error option \<times> fs" where
  "writeBytes p re we bytes fs =
     (case writeError fs p of
        None \<Rightarrow> (None, fs\<lparr>nodes := (nodes fs)(p \<mapsto> File re we bytes)\<rparr>)
      | Some (e, n) \<Rightarrow> (Some e, fs\<lparr>nodes := (nodes fs)(p \<mapsto> File re we (take n bytes))\<rparr>))"

definition os_WriteFile :: "path \<Rightarrow> string \<Rightarrow> fs \<Rightarrow> os_error option \<times> fs" where
  "os_WriteFile p bytes fs =
     (case nodes fs p of
        None \<Rightarrow>
          (case createError fs p of
             Some e \<Rightarrow> (Some e, fs)
           | None \<Rightarrow> writeBytes p (createdRead fs) (createdWrite fs) bytes fs)
      | Some Dir \<Rightarrow> (Some EISDIR, fs)
      | Some (File re we old) \<Rightarrow>
          (case we of
             Some e \<Rightarrow> (Some e, fs)
           | None \<Rightarrow> writeBytes p re we bytes fs))"

subsection \<open>\<open>strings.TrimSpace\<close> and \<open>strings.SplitN\<close>\<close>

text \<open>
  A Go string is a sequence of bytes, here a \<open>char list\<close>. \<open>strings.TrimSpace\<close> removes
  all leading and trailing white space as Unicode defines it, reading the bytes as UTF-8.
  The white space code points are U+0009 to U+000D, U+0020, U+0085, U+00A0, U+1680,
  U+2000 to U+200A, U+2028, U+2029, U+202F, U+205F and U+3000; the list below holds the
  UTF-8 encoding of each. A byte that starts none of them, valid UTF-8 or not, is not
  white space.
\<close>

definition spaceEncodings :: "string list" where
  "spaceEncodings =
     [[CHR 0x09], [CHR 0x0A], [CHR 0x0B], [CHR 0x0C], [CHR 0x0D], [CHR 0x20],
      [CHR 0xC2, CHR 0x85], [CHR 0xC2, CHR 0xA0],
      [CHR 0xE1, CHR 0x9A, CHR 0x80],
      [CHR 0xE2, CHR 0x80, CHR 0x80], [CHR 0xE2, CHR 0x80, CHR 0x81],
      [CHR 0xE2, CHR 0x80, CHR 0x82], [CHR 0xE2, CHR 0x80, CHR 0x83],
      [CHR 0xE2, CHR 0x80, CHR 0x84], [CHR 0xE2, CHR 0x80, CHR 0x85],
      [CHR 0xE2, CHR 0x80, CHR 0x86], [CHR 0xE2, CHR 0x80, CHR 0x87],
      [CHR 0xE2, CHR 0x80, CHR 0x88], [CHR 0xE2, CHR 0x80, CHR 0x89],
      [CHR 0xE2, CHR 0x80, CHR 0x8A],
      [CHR 0xE2, CHR 0x80, CHR 0xA8], [CHR 0xE2, CHR 0x80, CHR 0xA9],
      [CHR 0xE2, CHR 0x80, CHR 0xAF],
      [CHR 0xE2, CHR 0x81, CHR 0x9F],
      [CHR 0xE3, CHR 0x80, CHR 0x80]]"

text \<open>The white space character that a string starts with, or ends with, if any.\<close>

definition leadingSpace :: "string \<Rightarrow> string option" where
  "leadingSpace s = find (\<lambda>e. prefix e s) spaceEncodings"

definition trailingSpace :: "string \<Rightarrow> string option" where
  "trailingSpace s = find (\<lambda>e. suffix e s) spaceEncodings"

lemma spaceEncodings_nonempty: "e \<in> set spaceEncodings \<Longrightarrow> e \<noteq> []"
  by (auto simp: spaceEncodings_def)

lemma leadingSpace_Some: "leadingSpace s = Some e \<Longrightarrow> e \<noteq> [] \<and> prefix e s"
  by (auto simp: leadingSpace_def find_Some_iff spaceEncodings_nonempty)

lemma trailingSpace_Some: "trailingSpace s = Some e \<Longrightarrow> e \<noteq> [] \<and> suffix e s"
  by (auto simp: trailingSpace_def find_Some_iff spaceEncodings_nonempty)

text \<open>
  The two trimming loops: drop white space characters from the front, then from the back,
  until none is left. Each step removes at least one byte.
\<close>

function TrimLeft :: "string \<Rightarrow> string" where
  "TrimLeft s =
     (case leadingSpace s of
        None \<Rightarrow> s
      | Some e \<Rightarrow> TrimLeft (drop (length e) s))"
  by pat_completeness auto
termination
proof (relation "measure length")
  fix s e assume "leadingSpace s = Some e"
  then have "e \<noteq> []" "prefix e s" using leadingSpace_Some by blast+
  then show "(drop (length e) s, s) \<in> measure length"
    by (auto simp: prefix_def)
qed simp

function TrimRight :: "string \<Rightarrow> string" where
  "TrimRight s =
     (case trailingSpace s of
        None \<Rightarrow> s
      | Some e \<Rightarrow> TrimRight (take (length s - length e) s))"
  by pat_completeness auto
termination
proof (relation "measure length")
  fix s e assume "trailingSpace s = Some e"
  then have "e \<noteq> []" "suffix e s" using trailingSpace_Some by blast+
  then show "(take (length s - length e) s, s) \<in> measure length"
    by (auto simp: suffix_def)
qed simp

declare TrimLeft.simps [simp del] TrimRight.simps [simp del]

definition TrimSpace :: "string \<Rightarrow> string" where
  "TrimSpace s = TrimRight (TrimLeft s)"

text \<open>
  \<open>strings.SplitN(s, sep, n)\<close> for a separator of one byte: nothing for \<open>n = 0\<close>, else at most
  \<open>n\<close> pieces, cut at the first \<open>n - 1\<close> separators, the last piece being the unsplit rest.
\<close>

fun SplitN :: "string \<Rightarrow> char \<Rightarrow> nat \<Rightarrow> string list" where
  "SplitN s sep 0 = []"
| "SplitN s sep (Suc 0) = [s]"
| "SplitN s sep (Suc (Suc n)) =
     (if sep \<in> set s
      then takeWhile (\<lambda>c. c \<noteq> sep) s #
           SplitN (tl (dropWhile (\<lambda>c. c \<noteq> sep) s)) sep (Suc n)
      else [s])"

subsection \<open>\<open>Load\<close>, \<open>Save\<close> and \<open>SaveTo\<close>\<close>

record State =
  Challenge :: string
  Stage :: string

text \<open>The four \<open>fmt.Errorf\<close> values, with what each message interpolates.\<close>

datatype error =
    NotInChallengeDirectory
  | FailedToReadStateFile os_error
  | InvalidStateFormat string
  | FailedToWriteStateFile os_error

definition statePath :: path where
  "statePath = ''lc.state''"

text \<open>\<open>Load\<close> returns a pointer to a new \<open>State\<close>, represented by its value.\<close>

definition Load :: "fs \<Rightarrow> error + State" where
  "Load fs =
     (if os_IsNotExist fs statePath then Inl NotInChallengeDirectory
      else case os_ReadFile fs statePath of
        Inl err \<Rightarrow> Inl (FailedToReadStateFile err)
      | Inr bytes \<Rightarrow>
          (let content = TrimSpace bytes;
               parts = SplitN content CHR '':'' 2
           in if length parts \<noteq> 2 then Inl (InvalidStateFormat content)
              else Inr \<lparr>Challenge = TrimSpace (parts ! 0), Stage = TrimSpace (parts ! 1)\<rparr>))"

text \<open>
  \<open>SaveTo\<close> formats \<open>"%s:%s\n"\<close> and writes it; \<open>st\<close> is the \<open>State\<close> behind the pointer it
  is given.
\<close>

definition SaveTo :: "State \<Rightarrow> path \<Rightarrow> fs \<Rightarrow> error option \<times> fs" where
  "SaveTo st p fs =
     (let content = Challenge st @ '':'' @ Stage st @ [CHR 0x0A]
      in case os_WriteFile p content fs of
           (Some err, fs') \<Rightarrow> (Some (FailedToWriteStateFile err), fs')
         | (None, fs') \<Rightarrow> (None, fs'))"

definition Save :: "State \<Rightarrow> fs \<Rightarrow> error option \<times> fs" where
  "Save st fs = SaveTo st statePath fs"

subsection \<open>A concrete file system\<close>

text \<open>
  An empty directory in which files can be created, a created file can be read and
  written, and every write completes.
\<close>

definition exFS :: fs where
  "exFS = \<lparr>nodes = Map.empty, createError = (\<lambda>p. None), createdRead = None,
     createdWrite = None, writeError = (\<lambda>p. None)\<rparr>"

section \<open>Lemmas\<close>

subsection \<open>The plan builder\<close>

lemmas HTTP_defs = HTTPPlan_Eventually_def HTTPPlan_Within_def HTTPPlan_Consistently_def HTTPPlan_For_def

lemmas CLI_defs = CLIPlan_Eventually_def CLIPlan_Within_def CLIPlan_Consistently_def CLIPlan_For_def

lemmas set_defs = setEventually_def setWithin_def setConsistently_def setFor_def

lemmas ex_defs = exHeap_def exHTTPPlan_def exCLIPlan_def exConfig_def exHeapE_def exHeapC_def

text \<open>Misuse of \<open>Within\<close> and \<open>For\<close>, and their use after the matching mode call.\<close>

lemma HTTP_Within_misuse:
  "httpPlans h p = Some hp \<Longrightarrow> timing hp \<noteq> TimingEventually \<Longrightarrow>
   HTTPPlan_Within d p h = (Inl (Panic ''Within() can only be called after Eventually()''), h)"
  by (simp add: HTTPPlan_Within_def setWithin_def map_upd_triv)

lemma HTTP_For_misuse:
  "httpPlans h p = Some hp \<Longrightarrow> timing hp \<noteq> TimingConsistently \<Longrightarrow>
   HTTPPlan_For d p h = (Inl (Panic ''For() can only be called after Consistently()''), h)"
  by (simp add: HTTPPlan_For_def setFor_def map_upd_triv)

lemma CLI_Within_misuse:
  "cliPlans h p = Some hp \<Longrightarrow> timing hp \<noteq> TimingEventually \<Longrightarrow>
   CLIPlan_Within d p h = (Inl (Panic ''Within() can only be called after Eventually()''), h)"
  by (simp add: CLIPlan_Within_def setWithin_def map_upd_triv)

lemma CLI_For_misuse:
  "cliPlans h p = Some hp \<Longrightarrow> timing hp \<noteq> TimingConsistently \<Longrightarrow>
   CLIPlan_For d p h = (Inl (Panic ''For() can only be called after Consistently()''), h)"
  by (simp add: CLIPlan_For_def setFor_def map_upd_triv)

lemma HTTP_Within_after_Eventually:
  "HTTPPlan_Eventually p h = (Inr r, h1) \<Longrightarrow> fst (HTTPPlan_Within d r h1) = Inr r"
  by (auto simp: HTTPPlan_Eventually_def HTTPPlan_Within_def setEventually_def setWithin_def
      Let_def split: option.splits)

lemma HTTP_For_after_Consistently:
  "HTTPPlan_Consistently p h = (Inr r, h1) \<Longrightarrow> fst (HTTPPlan_For d r h1) = Inr r"
  by (auto simp: HTTPPlan_Consistently_def HTTPPlan_For_def setConsistently_def setFor_def
      Let_def split: option.splits)

lemma CLI_Within_after_Eventually:
  "CLIPlan_Eventually p h = (Inr r, h1) \<Longrightarrow> fst (CLIPlan_Within d r h1) = Inr r"
  by (auto simp: CLIPlan_Eventually_def CLIPlan_Within_def setEventually_def setWithin_def
      Let_def split: option.splits)

lemma CLI_For_after_Consistently:
  "CLIPlan_Consistently p h = (Inr r, h1) \<Longrightarrow> fst (CLIPlan_For d r h1) = Inr r"
  by (auto simp: CLIPlan_Consistently_def CLIPlan_For_def setConsistently_def setFor_def
      Let_def split: option.splits)

text \<open>What \<open>T()\<close> returns, and the plan's timing fields after each builder call.\<close>

lemma HTTP_T_Inr:
  "HTTPPlan_T p h = (Inr a, h0) \<Longrightarrow> h0 = h \<and> http_plan a = p"
  by (auto simp: HTTPPlan_T_def split: option.splits)

lemma HTTP_plan_after_mode:
  "httpPlans g p = Some hp \<Longrightarrow> configs g (config hp) = Some c \<Longrightarrow>
   map_option timing (httpPlans (snd (HTTPPlan_Eventually p g)) p) = Some TimingEventually \<and>
   map_option timeout (httpPlans (snd (HTTPPlan_Eventually p g)) p) = Some (DefaultRetryTimeout c) \<and>
   map_option timing (httpPlans (snd (HTTPPlan_Consistently p g)) p) = Some TimingConsistently \<and>
   map_option timeout (httpPlans (snd (HTTPPlan_Consistently p g)) p) = Some (DefaultRetryTimeout c)"
  by (simp add: HTTPPlan_Eventually_def HTTPPlan_Consistently_def setEventually_def
      setConsistently_def)

lemma HTTP_plan_after_Within:
  "httpPlans g p = Some hp \<Longrightarrow> timing hp = TimingEventually \<Longrightarrow>
   map_option timing (httpPlans (snd (HTTPPlan_Within d p g)) p) = Some TimingEventually \<and>
   map_option timeout (httpPlans (snd (HTTPPlan_Within d p g)) p) = Some d"
  by (simp add: HTTPPlan_Within_def setWithin_def)

lemma HTTP_plan_after_For:
  "httpPlans g p = Some hp \<Longrightarrow> timing hp = TimingConsistently \<Longrightarrow>
   map_option timing (httpPlans (snd (HTTPPlan_For d p g)) p) = Some TimingConsistently \<and>
   map_option timeout (httpPlans (snd (HTTPPlan_For d p g)) p) = Some d"
  by (simp add: HTTPPlan_For_def setFor_def)

lemma CLI_T_Inr:
  "CLIPlan_T p h = (Inr a, h0) \<Longrightarrow> h0 = h \<and> cli_plan a = p"
  by (auto simp: CLIPlan_T_def split: option.splits)

lemma CLI_plan_after_mode:
  "cliPlans g p = Some hp \<Longrightarrow> configs g (config hp) = Some c \<Longrightarrow>
   map_option timing (cliPlans (snd (CLIPlan_Eventually p g)) p) = Some TimingEventually \<and>
   map_option timeout (cliPlans (snd (CLIPlan_Eventually p g)) p) = Some (DefaultRetryTimeout c) \<and>
   map_option timing (cliPlans (snd (CLIPlan_Consistently p g)) p) = Some TimingConsistently \<and>
   map_option timeout (cliPlans (snd (CLIPlan_Consistently p g)) p) = Some (DefaultRetryTimeout c)"
  by (simp add: CLIPlan_Eventually_def CLIPlan_Consistently_def setEventually_def
      setConsistently_def)

lemma CLI_plan_after_Within:
  "cliPlans g p = Some hp \<Longrightarrow> timing hp = TimingEventually \<Longrightarrow>
   map_option timing (cliPlans (snd (CLIPlan_Within d p g)) p) = Some TimingEventually \<and>
   map_option timeout (cliPlans (snd (CLIPlan_Within d p g)) p) = Some d"
  by (simp add: CLIPlan_Within_def setWithin_def)

lemma CLI_plan_after_For:
  "cliPlans g p = Some hp \<Longrightarrow> timing hp = TimingConsistently \<Longrightarrow>
   map_option timing (cliPlans (snd (CLIPlan_For d p g)) p) = Some TimingConsistently \<and>
   map_option timeout (cliPlans (snd (CLIPlan_For d p g)) p) = Some d"
  by (simp add: CLIPlan_For_def setFor_def)

text \<open>The value each builder method returns.\<close>

lemma HTTP_returns_receiver:
  "fst (HTTPPlan_Eventually p h) = Inr p \<or> isl (fst (HTTPPlan_Eventually p h))"
  "fst (HTTPPlan_Within d p h) = Inr p \<or> isl (fst (HTTPPlan_Within d p h))"
  "fst (HTTPPlan_Consistently p h) = Inr p \<or> isl (fst (HTTPPlan_Consistently p h))"
  "fst (HTTPPlan_For d p h) = Inr p \<or> isl (fst (HTTPPlan_For d p h))"
  by (simp_all add: HTTP_defs set_defs Let_def split: option.splits)

lemma HTTP_mode_returns:
  "httpPlans h p = Some hp \<Longrightarrow> configs h (config hp) = Some c \<Longrightarrow>
   fst (HTTPPlan_Eventually p h) = Inr p \<and> fst (HTTPPlan_Consistently p h) = Inr p"
  by (simp add: HTTPPlan_Eventually_def HTTPPlan_Consistently_def setEventually_def
      setConsistently_def)

lemma HTTP_Within_returns:
  "httpPlans h p = Some hp \<Longrightarrow> timing hp = TimingEventually \<Longrightarrow>
   fst (HTTPPlan_Within d p h) = Inr p"
  by (simp add: HTTPPlan_Within_def setWithin_def)

lemma HTTP_For_returns:
  "httpPlans h p = Some hp \<Longrightarrow> timing hp = TimingConsistently \<Longrightarrow>
   fst (HTTPPlan_For d p h) = Inr p"
  by (simp add: HTTPPlan_For_def setFor_def)

lemma CLI_returns_receiver:
  "fst (CLIPlan_Eventually p h) = Inr p \<or> isl (fst (CLIPlan_Eventually p h))"
  "fst (CLIPlan_Within d p h) = Inr p \<or> isl (fst (CLIPlan_Within d p h))"
  "fst (CLIPlan_Consistently p h) = Inr p \<or> isl (fst (CLIPlan_Consistently p h))"
  "fst (CLIPlan_For d p h) = Inr p \<or> isl (fst (CLIPlan_For d p h))"
  by (simp_all add: CLI_defs set_defs Let_def split: option.splits)

lemma CLI_mode_returns:
  "cliPlans h p = Some hp \<Longrightarrow> configs h (config hp) = Some c \<Longrightarrow>
   fst (CLIPlan_Eventually p h) = Inr p \<and> fst (CLIPlan_Consistently p h) = Inr p"
  by (simp add: CLIPlan_Eventually_def CLIPlan_Consistently_def setEventually_def
      setConsistently_def)

lemma CLI_Within_returns:
  "cliPlans h p = Some hp \<Longrightarrow> timing hp = TimingEventually \<Longrightarrow>
   fst (CLIPlan_Within d p h) = Inr p"
  by (simp add: CLIPlan_Within_def setWithin_def)

lemma CLI_For_returns:
  "cliPlans h p = Some hp \<Longrightarrow> timing hp = TimingConsistently \<Longrightarrow>
   fst (CLIPlan_For d p h) = Inr p"
  by (simp add: CLIPlan_For_def setFor_def)

subsection \<open>Trimming\<close>

lemma spaceEncodings_no_colon: "e \<in> set spaceEncodings \<Longrightarrow> CHR '':'' \<notin> set e"
  by (auto simp: spaceEncodings_def)

lemma leadingSpace_None_iff:
  "leadingSpace s = None \<longleftrightarrow> (\<forall>e\<in>set spaceEncodings. \<not> prefix e s)"
  by (auto simp: leadingSpace_def find_None_iff)

lemma trailingSpace_None_iff:
  "trailingSpace s = None \<longleftrightarrow> (\<forall>e\<in>set spaceEncodings. \<not> suffix e s)"
  by (auto simp: trailingSpace_def find_None_iff)

lemma TrimLeft_None: "leadingSpace s = None \<Longrightarrow> TrimLeft s = s"
  by (simp add: TrimLeft.simps)

lemma TrimLeft_Some: "leadingSpace s = Some e \<Longrightarrow> TrimLeft s = TrimLeft (drop (length e) s)"
  by (subst TrimLeft.simps) simp

lemma TrimRight_None: "trailingSpace s = None \<Longrightarrow> TrimRight s = s"
  by (simp add: TrimRight.simps)

lemma TrimRight_Some:
  "trailingSpace s = Some e \<Longrightarrow> TrimRight s = TrimRight (take (length s - length e) s)"
  by (subst TrimRight.simps) simp

text \<open>A trimming loop returns a suffix (a prefix) of its input, free of white space at
  the trimmed end, and shorter whenever there was something to trim.\<close>

lemma TrimLeft_is_drop: "\<exists>k. TrimLeft s = drop k s"
proof (induction s rule: TrimLeft.induct)
  case (1 s)
  show ?case
  proof (cases "leadingSpace s")
    case None
    then have "TrimLeft s = drop 0 s" by (simp add: TrimLeft_None)
    then show ?thesis by blast
  next
    case (Some e)
    from 1 [OF Some] obtain k where "TrimLeft (drop (length e) s) = drop k (drop (length e) s)"
      by blast
    then have "TrimLeft s = drop (length e + k) s"
      by (simp add: TrimLeft_Some [OF Some] add.commute)
    then show ?thesis by blast
  qed
qed

lemma TrimRight_is_take: "\<exists>k. TrimRight s = take k s"
proof (induction s rule: TrimRight.induct)
  case (1 s)
  show ?case
  proof (cases "trailingSpace s")
    case None
    then have "TrimRight s = take (length s) s" by (simp add: TrimRight_None)
    then show ?thesis by blast
  next
    case (Some e)
    from 1 [OF Some] obtain k where
      "TrimRight (take (length s - length e) s) = take k (take (length s - length e) s)"
      by blast
    then have "TrimRight s = take (min k (length s - length e)) s"
      by (simp add: TrimRight_Some [OF Some])
    then show ?thesis by blast
  qed
qed

lemma leadingSpace_TrimLeft: "leadingSpace (TrimLeft s) = None"
proof (induction s rule: TrimLeft.induct)
  case (1 s)
  show ?case
  proof (cases "leadingSpace s")
    case None
    then show ?thesis by (simp add: TrimLeft_None)
  next
    case (Some e)
    then show ?thesis using 1 [OF Some] by (simp add: TrimLeft_Some)
  qed
qed

lemma trailingSpace_TrimRight: "trailingSpace (TrimRight s) = None"
proof (induction s rule: TrimRight.induct)
  case (1 s)
  show ?case
  proof (cases "trailingSpace s")
    case None
    then show ?thesis by (simp add: TrimRight_None)
  next
    case (Some e)
    then show ?thesis using 1 [OF Some] by (simp add: TrimRight_Some)
  qed
qed

lemma TrimLeft_shorter:
  "leadingSpace s = Some e \<Longrightarrow> length (TrimLeft s) < length s"
proof -
  assume a: "leadingSpace s = Some e"
  then have e: "e \<noteq> []" "prefix e s" using leadingSpace_Some by blast+
  obtain k where "TrimLeft (drop (length e) s) = drop k (drop (length e) s)"
    using TrimLeft_is_drop by blast
  then have "length (TrimLeft s) \<le> length s - length e"
    by (simp add: TrimLeft_Some [OF a])
  moreover have "0 < length e" "length e \<le> length s"
    using e by (auto simp: prefix_def)
  ultimately show ?thesis by linarith
qed

lemma TrimRight_shorter:
  "trailingSpace s = Some e \<Longrightarrow> length (TrimRight s) < length s"
proof -
  assume a: "trailingSpace s = Some e"
  then have e: "e \<noteq> []" "suffix e s" using trailingSpace_Some by blast+
  obtain k where
    "TrimRight (take (length s - length e) s) = take k (take (length s - length e) s)"
    using TrimRight_is_take by blast
  then have "length (TrimRight s) \<le> length s - length e"
    by (simp add: TrimRight_Some [OF a])
  moreover have "0 < length e" "length e \<le> length s"
    using e by (auto simp: suffix_def)
  ultimately show ?thesis by linarith
qed

lemma TrimLeft_length: "length (TrimLeft s) \<le> length s"
  by (cases "leadingSpace s") (simp add: TrimLeft_None, metis TrimLeft_shorter less_imp_le)

lemma TrimRight_length: "length (TrimRight s) \<le> length s"
  by (cases "trailingSpace s") (simp add: TrimRight_None, metis TrimRight_shorter less_imp_le)

lemma TrimSpace_fixed_iff:
  "TrimSpace s = s \<longleftrightarrow> leadingSpace s = None \<and> trailingSpace s = None"
proof
  assume fixed: "TrimSpace s = s"
  have l: "leadingSpace s = None"
  proof (cases "leadingSpace s")
    case (Some e)
    have "length (TrimSpace s) \<le> length (TrimLeft s)"
      by (simp add: TrimSpace_def TrimRight_length)
    with TrimLeft_shorter [OF Some] fixed show ?thesis by simp
  qed simp
  then have "TrimRight s = s" using fixed by (simp add: TrimSpace_def TrimLeft_None)
  then have "trailingSpace s = None"
    using TrimRight_shorter [of s] by (cases "trailingSpace s") auto
  with l show "leadingSpace s = None \<and> trailingSpace s = None" by simp
next
  assume "leadingSpace s = None \<and> trailingSpace s = None"
  then show "TrimSpace s = s" by (simp add: TrimSpace_def TrimLeft_None TrimRight_None)
qed

lemma TrimSpace_idem: "TrimSpace (TrimSpace s) = TrimSpace s"
proof -
  obtain k where k: "TrimRight (TrimLeft s) = take k (TrimLeft s)"
    using TrimRight_is_take by blast
  have "\<not> prefix e (take k (TrimLeft s))" if "e \<in> set spaceEncodings" for e
  proof
    assume "prefix e (take k (TrimLeft s))"
    then have "prefix e (TrimLeft s)"
      using take_is_prefix prefix_order.trans by blast
    with that leadingSpace_TrimLeft [of s] show False
      by (simp add: leadingSpace_None_iff)
  qed
  then have "leadingSpace (TrimSpace s) = None"
    by (simp add: TrimSpace_def k leadingSpace_None_iff)
  moreover have "trailingSpace (TrimSpace s) = None"
    by (simp add: TrimSpace_def trailingSpace_TrimRight)
  ultimately show ?thesis by (simp add: TrimSpace_fixed_iff)
qed

text \<open>
  No white space character contains a colon, so a colon shields what is on its other
  side: white space can neither start before it and end after it, nor the reverse.
\<close>

lemma leadingSpace_before_colon:
  assumes "leadingSpace c = None"
  shows "leadingSpace (c @ CHR '':'' # t) = None"
proof -
  have "\<not> prefix e (c @ CHR '':'' # t)" if e: "e \<in> set spaceEncodings" for e
  proof
    assume "prefix e (c @ CHR '':'' # t)"
    then consider "prefix e c" | us where "e = c @ us" "prefix us (CHR '':'' # t)"
      by (auto simp: prefix_append)
    then show False
    proof cases
      case 1
      with assms e show False by (simp add: leadingSpace_None_iff)
    next
      case 2
      show False
      proof (cases us)
        case Nil
        with 2 assms e show False by (auto simp: leadingSpace_None_iff)
      next
        case (Cons u us')
        with 2 have "CHR '':'' \<in> set e" by simp
        with spaceEncodings_no_colon [OF e] show False by simp
      qed
    qed
  qed
  then show ?thesis by (simp add: leadingSpace_None_iff)
qed

lemma trailingSpace_after_colon:
  assumes "trailingSpace s = None"
  shows "trailingSpace (x @ CHR '':'' # s) = None"
proof -
  have "\<not> suffix e (x @ CHR '':'' # s)" if e: "e \<in> set spaceEncodings" for e
  proof
    assume "suffix e (x @ CHR '':'' # s)"
    then consider "suffix e s" | "e = CHR '':'' # s"
      | xs' where "e = xs' @ CHR '':'' # s"
      by (auto simp: suffix_append suffix_Cons)
    then show False
    proof cases
      case 1
      with assms e show False by (simp add: trailingSpace_None_iff)
    next
      case 2
      then have "CHR '':'' \<in> set e" by simp
      with spaceEncodings_no_colon [OF e] show False by simp
    next
      case 3
      then have "CHR '':'' \<in> set e" by simp
      with spaceEncodings_no_colon [OF e] show False by simp
    qed
  qed
  then show ?thesis by (simp add: trailingSpace_None_iff)
qed

lemma trailingSpace_newline: "trailingSpace (u @ [CHR 0x0A]) = Some [CHR 0x0A]"
  by (simp add: trailingSpace_def spaceEncodings_def suffix_to_prefix)

lemma TrimRight_newline: "TrimRight (u @ [CHR 0x0A]) = TrimRight u"
  by (simp add: TrimRight_Some [OF trailingSpace_newline])

lemma TrimSpace_record:
  assumes "TrimSpace c = c" and "TrimSpace s = s"
  shows "TrimSpace (c @ '':'' @ s @ [CHR 0x0A]) = c @ '':'' @ s"
proof -
  from assms have c: "leadingSpace c = None" and s: "trailingSpace s = None"
    by (simp_all add: TrimSpace_fixed_iff)
  have "TrimLeft (c @ CHR '':'' # s @ [CHR 0x0A]) = c @ CHR '':'' # s @ [CHR 0x0A]"
    by (rule TrimLeft_None) (rule leadingSpace_before_colon [OF c])
  moreover have "TrimRight ((c @ CHR '':'' # s) @ [CHR 0x0A]) = TrimRight (c @ CHR '':'' # s)"
    by (rule TrimRight_newline)
  moreover have "TrimRight (c @ CHR '':'' # s) = c @ CHR '':'' # s"
    by (rule TrimRight_None) (rule trailingSpace_after_colon [OF s])
  ultimately show ?thesis by (simp add: TrimSpace_def)
qed

subsection \<open>Splitting, loading and saving\<close>

lemma takeWhile_upto_sep:
  "x \<notin> set a \<Longrightarrow> takeWhile (\<lambda>c. c \<noteq> x) (a @ x # b) = a"
  by (induction a) auto

lemma dropWhile_upto_sep:
  "x \<notin> set a \<Longrightarrow> dropWhile (\<lambda>c. c \<noteq> x) (a @ x # b) = x # b"
  by (induction a) auto

lemma SplitN_2_colon:
  "CHR '':'' \<notin> set a \<Longrightarrow> SplitN (a @ CHR '':'' # b) CHR '':'' 2 = [a, b]"
  by (simp add: numeral_2_eq_2 takeWhile_upto_sep dropWhile_upto_sep)

lemma SplitN_2_none:
  "CHR '':'' \<notin> set s \<Longrightarrow> SplitN s CHR '':'' 2 = [s]"
  by (simp add: numeral_2_eq_2)

lemma SplitN_2_length:
  "length (SplitN s CHR '':'' 2) = 2 \<longleftrightarrow> CHR '':'' \<in> set s"
  by (simp add: numeral_2_eq_2)

lemma Load_File:
  "nodes fs statePath = Some (File None we bytes) \<Longrightarrow>
   Load fs =
     (if CHR '':'' \<in> set (TrimSpace bytes)
      then Inr \<lparr>Challenge = TrimSpace (takeWhile (\<lambda>c. c \<noteq> CHR '':'') (TrimSpace bytes)),
                Stage = TrimSpace (tl (dropWhile (\<lambda>c. c \<noteq> CHR '':'') (TrimSpace bytes)))\<rparr>
      else Inl (InvalidStateFormat (TrimSpace bytes)))"
  by (simp add: Load_def os_IsNotExist_def os_ReadFile_def Let_def numeral_2_eq_2)

lemma Load_split:
  assumes "nodes fs statePath = Some (File None we bytes)"
    and "TrimSpace bytes = a @ CHR '':'' # b" and "CHR '':'' \<notin> set a"
  shows "Load fs = Inr \<lparr>Challenge = TrimSpace a, Stage = TrimSpace b\<rparr>"
  using assms by (simp add: Load_File takeWhile_upto_sep dropWhile_upto_sep)

lemma Load_unreadable:
  "nodes fs statePath = Some (File (Some e) we bytes) \<Longrightarrow>
   Load fs = Inl (FailedToReadStateFile e)"
  by (simp add: Load_def os_IsNotExist_def os_ReadFile_def)

lemma Load_error_iff:
  "isl (Load fs) \<longleftrightarrow>
     nodes fs statePath = None \<or> nodes fs statePath = Some Dir \<or>
     (\<exists>e we bytes. nodes fs statePath = Some (File (Some e) we bytes)) \<or>
     (\<exists>we bytes. nodes fs statePath = Some (File None we bytes) \<and>
        CHR '':'' \<notin> set (TrimSpace bytes))"
proof (cases "nodes fs statePath")
  case None
  then show ?thesis by (simp add: Load_def os_IsNotExist_def)
next
  case (Some n)
  show ?thesis
  proof (cases n)
    case (File re we bytes)
    show ?thesis
    proof (cases re)
      case None
      with Some File show ?thesis by (simp add: Load_File)
    next
      case (Some e)
      with \<open>nodes fs statePath = Some n\<close> File show ?thesis by (simp add: Load_unreadable)
    qed
  next
    case Dir
    with Some show ?thesis by (simp add: Load_def os_IsNotExist_def os_ReadFile_def)
  qed
qed

lemma writeBytes_ok:
  "writeBytes p re we bytes fs = (None, fs') \<Longrightarrow>
   fs' = fs\<lparr>nodes := (nodes fs)(p \<mapsto> File re we bytes)\<rparr>"
  by (auto simp: writeBytes_def split: option.splits)

lemma SaveTo_ok:
  "SaveTo st p fs = (None, fs') \<Longrightarrow>
   \<exists>re we. nodes fs' p = Some (File re we (Challenge st @ '':'' @ Stage st @ [CHR 0x0A]))"
  by (auto simp: SaveTo_def os_WriteFile_def Let_def
      split: option.splits node.splits prod.splits dest!: writeBytes_ok)

lemma SaveTo_creates:
  "nodes fs p = None \<Longrightarrow> createError fs p = None \<Longrightarrow> writeError fs p = None \<Longrightarrow>
   SaveTo st p fs =
     (None, fs\<lparr>nodes := (nodes fs)(p \<mapsto>
        File (createdRead fs) (createdWrite fs) (Challenge st @ '':'' @ Stage st @ [CHR 0x0A]))\<rparr>)"
  by (simp add: SaveTo_def os_WriteFile_def writeBytes_def)

lemma SaveTo_overwrites:
  "nodes fs p = Some (File re None old) \<Longrightarrow> writeError fs p = None \<Longrightarrow>
   SaveTo st p fs =
     (None, fs\<lparr>nodes := (nodes fs)(p \<mapsto>
        File re None (Challenge st @ '':'' @ Stage st @ [CHR 0x0A]))\<rparr>)"
  by (simp add: SaveTo_def os_WriteFile_def writeBytes_def)

lemma Load_record:
  assumes "CHR '':'' \<notin> set (Challenge st)" and "TrimSpace (Challenge st) = Challenge st"
    and "TrimSpace (Stage st) = Stage st"
    and "nodes fs statePath =
      Some (File None we (Challenge st @ '':'' @ Stage st @ [CHR 0x0A]))"
  shows "Load fs = Inr st"
proof -
  have t: "TrimSpace (Challenge st @ '':'' @ Stage st @ [CHR 0x0A])
      = Challenge st @ CHR '':'' # Stage st"
    using assms(2,3) TrimSpace_record [of "Challenge st" "Stage st"] by simp
  show ?thesis
    using Load_split [of fs we _ "Challenge st" "Stage st", OF assms(4) t assms(1)]
      assms(2,3) by simp
qed

section \<open>Properties of the plan builder\<close>

text \<open>
  In the statements below \<open>p\<close> points to an HTTP plan and \<open>q\<close> to a CLI plan; a hypothesis
  such as \<open>httpPlans h p = Some hp\<close> says that \<open>p\<close> is a live plan of the store \<open>h\<close> whose
  value is \<open>hp\<close>, and \<open>configs h (config hp) = Some c\<close> that its config pointer is live too.
  A result \<open>(Inr r, h')\<close> is a call that returned \<open>r\<close> and left the store \<open>h'\<close>; a result
  \<open>(Inl f, h')\<close> is a call that panicked with \<open>f\<close>.
\<close>

text \<open>
  Claim C1, as stated, at a concrete input. The config of \<open>exHeap\<close> has a default retry
  timeout of 5 and a default consistency duration of 3. After \<open>Consistently()\<close> on the
  fresh HTTP plan the plan's duration is the default retry timeout, and it is not the
  default consistency duration.
\<close>

theorem Consistently_default_counterexample:
  "map_option timeout (httpPlans (snd (HTTPPlan_Consistently 2 exHeap)) 2)
     = Some (DefaultRetryTimeout exConfig) \<and>
   map_option timeout (httpPlans (snd (HTTPPlan_Consistently 2 exHeap)) 2)
     \<noteq> Some (DefaultConsistencyDuration exConfig)"
  by (simp add: HTTPPlan_Consistently_def setConsistently_def ex_defs)

text \<open>
  Claim C1, amended. For every plan, HTTP or CLI, in any prior timing state,
  \<open>Consistently()\<close> returns, sets the timing state to Consistently and sets the duration
  to the config's default retry timeout, the same default that \<open>Eventually()\<close> uses.
  Nothing else in the store changes.
\<close>

theorem Consistently_sets_retry_default:
  "(httpPlans h p = Some hp \<and> configs h (config hp) = Some c \<longrightarrow>
      HTTPPlan_Consistently p h =
        (Inr p, h\<lparr>httpPlans := (httpPlans h)(p \<mapsto>
           hp\<lparr>timing := TimingConsistently, timeout := DefaultRetryTimeout c\<rparr>)\<rparr>)) \<and>
   (cliPlans h q = Some cp \<and> configs h (config cp) = Some c' \<longrightarrow>
      CLIPlan_Consistently q h =
        (Inr q, h\<lparr>cliPlans := (cliPlans h)(q \<mapsto>
           cp\<lparr>timing := TimingConsistently, timeout := DefaultRetryTimeout c'\<rparr>)\<rparr>))"
  by (simp add: HTTPPlan_Consistently_def CLIPlan_Consistently_def setConsistently_def)

theorem Consistently_sets_retry_default_witness:
  "HTTPPlan_Consistently 2 exHeap =
     (Inr 2, exHeap\<lparr>httpPlans := [2 \<mapsto> exHTTPPlan\<lparr>timing := TimingConsistently, timeout := 5\<rparr>]\<rparr>) \<and>
   CLIPlan_Consistently 3 exHeap =
     (Inr 3, exHeap\<lparr>cliPlans := [3 \<mapsto> exCLIPlan\<lparr>timing := TimingConsistently, timeout := 5\<rparr>]\<rparr>)"
  using Consistently_sets_retry_default [of exHeap 2 exHTTPPlan exConfig 3 exCLIPlan exConfig]
  by (simp add: ex_defs)

text \<open>
  Claim C2. For every plan and every duration \<open>d\<close>: \<open>Within(d)\<close> on a plan whose timing
  state is not Eventually panics with the message of \<open>setWithin\<close>, and \<open>For(d)\<close> on a plan
  whose timing state is not Consistently panics with the message of \<open>setFor\<close>. The panic
  leaves the store as it was, so the same call panics again every time. \<open>Within(d)\<close> on
  the plan that \<open>Eventually()\<close> returned, in the store it left, returns that plan, and so
  does \<open>For(d)\<close> after \<open>Consistently()\<close>.
\<close>

theorem Within_For_misuse_panics:
  "(httpPlans h p = Some hp \<and> timing hp \<noteq> TimingEventually \<longrightarrow>
      HTTPPlan_Within d p h =
        (Inl (Panic ''Within() can only be called after Eventually()''), h)) \<and>
   (httpPlans h p = Some hp \<and> timing hp \<noteq> TimingConsistently \<longrightarrow>
      HTTPPlan_For d p h =
        (Inl (Panic ''For() can only be called after Consistently()''), h)) \<and>
   (cliPlans h q = Some cp \<and> timing cp \<noteq> TimingEventually \<longrightarrow>
      CLIPlan_Within d q h =
        (Inl (Panic ''Within() can only be called after Eventually()''), h)) \<and>
   (cliPlans h q = Some cp \<and> timing cp \<noteq> TimingConsistently \<longrightarrow>
      CLIPlan_For d q h =
        (Inl (Panic ''For() can only be called after Consistently()''), h)) \<and>
   (HTTPPlan_Eventually p h = (Inr r, h1) \<longrightarrow> fst (HTTPPlan_Within d r h1) = Inr r) \<and>
   (HTTPPlan_Consistently p h = (Inr r, h2) \<longrightarrow> fst (HTTPPlan_For d r h2) = Inr r) \<and>
   (CLIPlan_Eventually q h = (Inr s, h3) \<longrightarrow> fst (CLIPlan_Within d s h3) = Inr s) \<and>
   (CLIPlan_Consistently q h = (Inr s, h4) \<longrightarrow> fst (CLIPlan_For d s h4) = Inr s)"
  by (intro conjI impI; (elim conjE)?;
      (erule (1) HTTP_Within_misuse HTTP_For_misuse CLI_Within_misuse CLI_For_misuse
        | erule HTTP_Within_after_Eventually HTTP_For_after_Consistently
            CLI_Within_after_Eventually CLI_For_after_Consistently))

theorem Within_For_misuse_panics_witness:
  "HTTPPlan_Within 7 2 exHeap =
     (Inl (Panic ''Within() can only be called after Eventually()''), exHeap) \<and>
   HTTPPlan_For 7 2 exHeap =
     (Inl (Panic ''For() can only be called after Consistently()''), exHeap) \<and>
   CLIPlan_Within 7 3 exHeap =
     (Inl (Panic ''Within() can only be called after Eventually()''), exHeap) \<and>
   CLIPlan_For 7 3 exHeap =
     (Inl (Panic ''For() can only be called after Consistently()''), exHeap) \<and>
   fst (HTTPPlan_Within 7 2 (snd (HTTPPlan_Eventually 2 exHeap))) = Inr 2 \<and>
   fst (HTTPPlan_For 7 2 (snd (HTTPPlan_Consistently 2 exHeap))) = Inr 2 \<and>
   fst (CLIPlan_Within 7 3 (snd (CLIPlan_Eventually 3 exHeap))) = Inr 3 \<and>
   fst (CLIPlan_For 7 3 (snd (CLIPlan_Consistently 3 exHeap))) = Inr 3"
  using Within_For_misuse_panics [where h = exHeap and p = 2 and hp = exHTTPPlan and d = 7
      and q = 3 and cp = exCLIPlan and r = 2 and s = 3
      and ?h1.0 = "snd (HTTPPlan_Eventually 2 exHeap)"
      and ?h2.0 = "snd (HTTPPlan_Consistently 2 exHeap)"
      and ?h3.0 = "snd (CLIPlan_Eventually 3 exHeap)"
      and ?h4.0 = "snd (CLIPlan_Consistently 3 exHeap)"]
  by (simp add: ex_defs HTTPPlan_Eventually_def HTTPPlan_Consistently_def
      CLIPlan_Eventually_def CLIPlan_Consistently_def setEventually_def setConsistently_def)

text \<open>
  An Assert has no timing field of its own: it is made of a config pointer and a plan
  pointer, so the timing and the duration it works with are those of the plan that its
  \<open>plan\<close> field points to, in the store as it is when the Assert looks.
\<close>

text \<open>
  Claim C3, as stated, at a concrete input. \<open>T()\<close> on the fresh HTTP plan at address 2
  hands out an Assert whose \<open>plan\<close> is address 2; through it the Assert finds the timing
  Immediate and the duration 0. After a further \<open>Eventually()\<close> on the plan, the same Assert
  finds the timing Eventually and the duration 5: both changed.
\<close>

theorem Assert_timing_mutable_counterexample:
  "HTTPPlan_T 2 exHeap = (Inr \<lparr>assert_config = 1, http_plan = 2\<rparr>, exHeap) \<and>
   map_option timing (httpPlans exHeap (http_plan \<lparr>assert_config = 1, http_plan = 2\<rparr>))
     = Some TimingImmediate \<and>
   map_option timeout (httpPlans exHeap (http_plan \<lparr>assert_config = 1, http_plan = 2\<rparr>))
     = Some 0 \<and>
   fst (HTTPPlan_Eventually 2 exHeap) = Inr 2 \<and>
   map_option timing (httpPlans (snd (HTTPPlan_Eventually 2 exHeap))
       (http_plan \<lparr>assert_config = 1, http_plan = 2\<rparr>))
     = Some TimingEventually \<and>
   map_option timeout (httpPlans (snd (HTTPPlan_Eventually 2 exHeap))
       (http_plan \<lparr>assert_config = 1, http_plan = 2\<rparr>))
     = Some 5 \<and>
   map_option timing (httpPlans (snd (HTTPPlan_Eventually 2 exHeap))
       (http_plan \<lparr>assert_config = 1, http_plan = 2\<rparr>))
     \<noteq> map_option timing (httpPlans exHeap (http_plan \<lparr>assert_config = 1, http_plan = 2\<rparr>)) \<and>
   map_option timeout (httpPlans (snd (HTTPPlan_Eventually 2 exHeap))
       (http_plan \<lparr>assert_config = 1, http_plan = 2\<rparr>))
     \<noteq> map_option timeout (httpPlans exHeap (http_plan \<lparr>assert_config = 1, http_plan = 2\<rparr>))"
  by (simp add: HTTPPlan_T_def HTTPPlan_Eventually_def setEventually_def ex_defs)

text \<open>
  Claim C3, amended. \<open>T()\<close> takes no snapshot: it leaves the store unchanged and hands out
  an Assert whose \<open>plan\<close> field is the pointer to the plan itself, so the timing and the
  duration the Assert uses are always the plan's current ones. A further builder call
  that returns is therefore seen by the Assert already handed out: after \<open>Eventually()\<close>
  or \<open>Consistently()\<close> it finds that mode and the config's default retry timeout, after
  \<open>Within(d)\<close> or \<open>For(d)\<close> it finds the duration \<open>d\<close>. The stores \<open>g\<close>, \<open>gE\<close> and \<open>gC\<close>
  are any stores in which the later call is made.
\<close>

theorem Assert_reads_live_plan:
  "(HTTPPlan_T p h = (Inr a, h0) \<longrightarrow>
      h0 = h \<and> http_plan a = p \<and>
      (httpPlans g p = Some hp \<and> configs g (config hp) = Some c \<longrightarrow>
         map_option timing (httpPlans (snd (HTTPPlan_Eventually p g)) (http_plan a))
           = Some TimingEventually \<and>
         map_option timeout (httpPlans (snd (HTTPPlan_Eventually p g)) (http_plan a))
           = Some (DefaultRetryTimeout c) \<and>
         map_option timing (httpPlans (snd (HTTPPlan_Consistently p g)) (http_plan a))
           = Some TimingConsistently \<and>
         map_option timeout (httpPlans (snd (HTTPPlan_Consistently p g)) (http_plan a))
           = Some (DefaultRetryTimeout c)) \<and>
      (httpPlans gE p = Some hpE \<and> timing hpE = TimingEventually \<longrightarrow>
         map_option timing (httpPlans (snd (HTTPPlan_Within d p gE)) (http_plan a))
           = Some TimingEventually \<and>
         map_option timeout (httpPlans (snd (HTTPPlan_Within d p gE)) (http_plan a)) = Some d) \<and>
      (httpPlans gC p = Some hpC \<and> timing hpC = TimingConsistently \<longrightarrow>
         map_option timing (httpPlans (snd (HTTPPlan_For d p gC)) (http_plan a))
           = Some TimingConsistently \<and>
         map_option timeout (httpPlans (snd (HTTPPlan_For d p gC)) (http_plan a)) = Some d)) \<and>
   (CLIPlan_T q h = (Inr b, h0') \<longrightarrow>
      h0' = h \<and> cli_plan b = q \<and>
      (cliPlans g q = Some cp \<and> configs g (config cp) = Some c' \<longrightarrow>
         map_option timing (cliPlans (snd (CLIPlan_Eventually q g)) (cli_plan b))
           = Some TimingEventually \<and>
         map_option timeout (cliPlans (snd (CLIPlan_Eventually q g)) (cli_plan b))
           = Some (DefaultRetryTimeout c') \<and>
         map_option timing (cliPlans (snd (CLIPlan_Consistently q g)) (cli_plan b))
           = Some TimingConsistently \<and>
         map_option timeout (cliPlans (snd (CLIPlan_Consistently q g)) (cli_plan b))
           = Some (DefaultRetryTimeout c')) \<and>
      (cliPlans gE q = Some cpE \<and> timing cpE = TimingEventually \<longrightarrow>
         map_option timing (cliPlans (snd (CLIPlan_Within d q gE)) (cli_plan b))
           = Some TimingEventually \<and>
         map_option timeout (cliPlans (snd (CLIPlan_Within d q gE)) (cli_plan b)) = Some d) \<and>
      (cliPlans gC q = Some cpC \<and> timing cpC = TimingConsistently \<longrightarrow>
         map_option timing (cliPlans (snd (CLIPlan_For d q gC)) (cli_plan b))
           = Some TimingConsistently \<and>
         map_option timeout (cliPlans (snd (CLIPlan_For d q gC)) (cli_plan b)) = Some d))"
proof (rule conjI; rule impI)
  assume "HTTPPlan_T p h = (Inr a, h0)"
  then have a: "h0 = h" "http_plan a = p"
    using HTTP_T_Inr by blast+
  show "h0 = h \<and> http_plan a = p \<and>
      (httpPlans g p = Some hp \<and> configs g (config hp) = Some c \<longrightarrow>
         map_option timing (httpPlans (snd (HTTPPlan_Eventually p g)) (http_plan a))
           = Some TimingEventually \<and>
         map_option timeout (httpPlans (snd (HTTPPlan_Eventually p g)) (http_plan a))
           = Some (DefaultRetryTimeout c) \<and>
         map_option timing (httpPlans (snd (HTTPPlan_Consistently p g)) (http_plan a))
           = Some TimingConsistently \<and>
         map_option timeout (httpPlans (snd (HTTPPlan_Consistently p g)) (http_plan a))
           = Some (DefaultRetryTimeout c)) \<and>
      (httpPlans gE p = Some hpE \<and> timing hpE = TimingEventually \<longrightarrow>
         map_option timing (httpPlans (snd (HTTPPlan_Within d p gE)) (http_plan a))
           = Some TimingEventually \<and>
         map_option timeout (httpPlans (snd (HTTPPlan_Within d p gE)) (http_plan a)) = Some d) \<and>
      (httpPlans gC p = Some hpC \<and> timing hpC = TimingConsistently \<longrightarrow>
         map_option timing (httpPlans (snd (HTTPPlan_For d p gC)) (http_plan a))
           = Some TimingConsistently \<and>
         map_option timeout (httpPlans (snd (HTTPPlan_For d p gC)) (http_plan a)) = Some d)"
    using a HTTP_plan_after_mode [of g p hp c] HTTP_plan_after_Within [of gE p hpE d]
      HTTP_plan_after_For [of gC p hpC d]
    by simp
next
  assume "CLIPlan_T q h = (Inr b, h0')"
  then have b: "h0' = h" "cli_plan b = q"
    using CLI_T_Inr by blast+
  show "h0' = h \<and> cli_plan b = q \<and>
      (cliPlans g q = Some cp \<and> configs g (config cp) = Some c' \<longrightarrow>
         map_option timing (cliPlans (snd (CLIPlan_Eventually q g)) (cli_plan b))
           = Some TimingEventually \<and>
         map_option timeout (cliPlans (snd (CLIPlan_Eventually q g)) (cli_plan b))
           = Some (DefaultRetryTimeout c') \<and>
         map_option timing (cliPlans (snd (CLIPlan_Consistently q g)) (cli_plan b))
           = Some TimingConsistently \<and>
         map_option timeout (cliPlans (snd (CLIPlan_Consistently q g)) (cli_plan b))
           = Some (DefaultRetryTimeout c')) \<and>
      (cliPlans gE q = Some cpE \<and> timing cpE = TimingEventually \<longrightarrow>
         map_option timing (cliPlans (snd (CLIPlan_Within d q gE)) (cli_plan b))
           = Some TimingEventually \<and>
         map_option timeout (cliPlans (snd (CLIPlan_Within d q gE)) (cli_plan b)) = Some d) \<and>
      (cliPlans gC q = Some cpC \<and> timing cpC = TimingConsistently \<longrightarrow>
         map_option timing (cliPlans (snd (CLIPlan_For d q gC)) (cli_plan b))
           = Some TimingConsistently \<and>
         map_option timeout (cliPlans (snd (CLIPlan_For d q gC)) (cli_plan b)) = Some d)"
    using b CLI_plan_after_mode [of g q cp c'] CLI_plan_after_Within [of gE q cpE d]
      CLI_plan_after_For [of gC q cpC d]
    by simp
qed

theorem Assert_reads_live_plan_witness:
  "HTTPPlan_T 2 exHeap = (Inr \<lparr>assert_config = 1, http_plan = 2\<rparr>, exHeap) \<and>
   map_option timing (httpPlans (snd (HTTPPlan_Eventually 2 exHeap)) 2)
     = Some TimingEventually \<and>
   map_option timeout (httpPlans (snd (HTTPPlan_Consistently 2 exHeap)) 2) = Some 5 \<and>
   map_option timeout (httpPlans (snd (HTTPPlan_Within 7 2 exHeapE)) 2) = Some 7 \<and>
   map_option timeout (httpPlans (snd (HTTPPlan_For 7 2 exHeapC)) 2) = Some 7 \<and>
   CLIPlan_T 3 exHeap = (Inr \<lparr>assert_config = 1, cli_plan = 3\<rparr>, exHeap) \<and>
   map_option timing (cliPlans (snd (CLIPlan_Eventually 3 exHeap)) 3)
     = Some TimingEventually \<and>
   map_option timeout (cliPlans (snd (CLIPlan_Consistently 3 exHeap)) 3) = Some 5 \<and>
   map_option timeout (cliPlans (snd (CLIPlan_Within 7 3 exHeapE)) 3) = Some 7 \<and>
   map_option timeout (cliPlans (snd (CLIPlan_For 7 3 exHeapC)) 3) = Some 7"
  using Assert_reads_live_plan [where h = exHeap and ?h0.0 = exHeap and h0' = exHeap
      and p = 2 and q = 3 and d = 7
      and a = "\<lparr>assert_config = 1, http_plan = 2\<rparr>"
      and b = "\<lparr>assert_config = 1, cli_plan = 3\<rparr>"
      and g = exHeap and c = exConfig and c' = exConfig
      and hp = exHTTPPlan and cp = exCLIPlan and gE = exHeapE and gC = exHeapC
      and hpE = "exHTTPPlan\<lparr>timing := TimingEventually, timeout := 9\<rparr>"
      and cpE = "exCLIPlan\<lparr>timing := TimingEventually, timeout := 9\<rparr>"
      and hpC = "exHTTPPlan\<lparr>timing := TimingConsistently, timeout := 9\<rparr>"
      and cpC = "exCLIPlan\<lparr>timing := TimingConsistently, timeout := 9\<rparr>"]
  by (simp add: HTTPPlan_T_def CLIPlan_T_def ex_defs)

text \<open>
  Claim C4. For every plan in the Immediate state, \<open>Eventually()\<close> moves the timing state
  to Eventually and sets the duration to the config's default retry timeout. The call
  returns, and the store afterwards differs from the one before in these two fields of
  the plan only.
\<close>

theorem Eventually_from_Immediate:
  "(httpPlans h p = Some hp \<and> timing hp = TimingImmediate \<and> configs h (config hp) = Some c \<longrightarrow>
      HTTPPlan_Eventually p h =
        (Inr p, h\<lparr>httpPlans := (httpPlans h)(p \<mapsto>
           hp\<lparr>timing := TimingEventually, timeout := DefaultRetryTimeout c\<rparr>)\<rparr>)) \<and>
   (cliPlans h q = Some cp \<and> timing cp = TimingImmediate \<and> configs h (config cp) = Some c' \<longrightarrow>
      CLIPlan_Eventually q h =
        (Inr q, h\<lparr>cliPlans := (cliPlans h)(q \<mapsto>
           cp\<lparr>timing := TimingEventually, timeout := DefaultRetryTimeout c'\<rparr>)\<rparr>))"
  by (simp add: HTTPPlan_Eventually_def CLIPlan_Eventually_def setEventually_def)

theorem Eventually_from_Immediate_witness:
  "HTTPPlan_Eventually 2 exHeap =
     (Inr 2, exHeap\<lparr>httpPlans := [2 \<mapsto> exHTTPPlan\<lparr>timing := TimingEventually, timeout := 5\<rparr>]\<rparr>) \<and>
   CLIPlan_Eventually 3 exHeap =
     (Inr 3, exHeap\<lparr>cliPlans := [3 \<mapsto> exCLIPlan\<lparr>timing := TimingEventually, timeout := 5\<rparr>]\<rparr>)"
  using Eventually_from_Immediate [of exHeap 2 exHTTPPlan exConfig 3 exCLIPlan exConfig]
  by (simp add: exHeap_def exHTTPPlan_def exCLIPlan_def exConfig_def)

text \<open>
  Claim C5. For every plan in the Eventually state and every duration \<open>d\<close>, \<open>Within(d)\<close>
  returns and overrides only the duration: the plan afterwards is the plan before with
  its \<open>timeout\<close> set to \<open>d\<close>, so the timing mode is still Eventually and the method, URL,
  headers, body, command, arguments, config pointer and context are unchanged; every
  other object of the store is unchanged as well.
\<close>

theorem Within_overrides_duration_only:
  "(httpPlans h p = Some hp \<and> timing hp = TimingEventually \<longrightarrow>
      HTTPPlan_Within d p h =
        (Inr p, h\<lparr>httpPlans := (httpPlans h)(p \<mapsto> hp\<lparr>timeout := d\<rparr>)\<rparr>)) \<and>
   (cliPlans h q = Some cp \<and> timing cp = TimingEventually \<longrightarrow>
      CLIPlan_Within d q h =
        (Inr q, h\<lparr>cliPlans := (cliPlans h)(q \<mapsto> cp\<lparr>timeout := d\<rparr>)\<rparr>))"
  by (simp add: HTTPPlan_Within_def CLIPlan_Within_def setWithin_def)

theorem Within_overrides_duration_only_witness:
  "HTTPPlan_Within 7 2 exHeapE =
     (Inr 2, exHeapE\<lparr>httpPlans :=
        [2 \<mapsto> exHTTPPlan\<lparr>timing := TimingEventually, timeout := 7\<rparr>]\<rparr>) \<and>
   CLIPlan_Within 7 3 exHeapE =
     (Inr 3, exHeapE\<lparr>cliPlans :=
        [3 \<mapsto> exCLIPlan\<lparr>timing := TimingEventually, timeout := 7\<rparr>]\<rparr>)"
  using Within_overrides_duration_only [where h = exHeapE and p = 2 and q = 3 and d = 7
      and hp = "exHTTPPlan\<lparr>timing := TimingEventually, timeout := 9\<rparr>"
      and cp = "exCLIPlan\<lparr>timing := TimingEventually, timeout := 9\<rparr>"]
  by (simp add: ex_defs)

text \<open>
  Claim C6. For both \<open>HTTPPlan\<close> and \<open>CLIPlan\<close>, each of \<open>Eventually()\<close>, \<open>Within(d)\<close>,
  \<open>Consistently()\<close> and \<open>For(d)\<close> returns the very pointer it was called on: a call either
  panics or returns its receiver. On a live plan with a live config the two mode calls
  do return; \<open>Within(d)\<close> returns on a plan in the Eventually state and \<open>For(d)\<close> on a plan
  in the Consistently state.
\<close>

theorem builders_return_receiver:
  "(fst (HTTPPlan_Eventually p h) = Inr p \<or> isl (fst (HTTPPlan_Eventually p h))) \<and>
   (fst (HTTPPlan_Within d p h) = Inr p \<or> isl (fst (HTTPPlan_Within d p h))) \<and>
   (fst (HTTPPlan_Consistently p h) = Inr p \<or> isl (fst (HTTPPlan_Consistently p h))) \<and>
   (fst (HTTPPlan_For d p h) = Inr p \<or> isl (fst (HTTPPlan_For d p h))) \<and>
   (fst (CLIPlan_Eventually q h) = Inr q \<or> isl (fst (CLIPlan_Eventually q h))) \<and>
   (fst (CLIPlan_Within d q h) = Inr q \<or> isl (fst (CLIPlan_Within d q h))) \<and>
   (fst (CLIPlan_Consistently q h) = Inr q \<or> isl (fst (CLIPlan_Consistently q h))) \<and>
   (fst (CLIPlan_For d q h) = Inr q \<or> isl (fst (CLIPlan_For d q h))) \<and>
   (httpPlans h p = Some hp \<and> configs h (config hp) = Some c \<longrightarrow>
      fst (HTTPPlan_Eventually p h) = Inr p \<and> fst (HTTPPlan_Consistently p h) = Inr p) \<and>
   (httpPlans hE p = Some hpE \<and> timing hpE = TimingEventually \<longrightarrow>
      fst (HTTPPlan_Within d p hE) = Inr p) \<and>
   (httpPlans hC p = Some hpC \<and> timing hpC = TimingConsistently \<longrightarrow>
      fst (HTTPPlan_For d p hC) = Inr p) \<and>
   (cliPlans h q = Some cp \<and> configs h (config cp) = Some c' \<longrightarrow>
      fst (CLIPlan_Eventually q h) = Inr q \<and> fst (CLIPlan_Consistently q h) = Inr q) \<and>
   (cliPlans hE q = Some cpE \<and> timing cpE = TimingEventually \<longrightarrow>
      fst (CLIPlan_Within d q hE) = Inr q) \<and>
   (cliPlans hC q = Some cpC \<and> timing cpC = TimingConsistently \<longrightarrow>
      fst (CLIPlan_For d q hC) = Inr q)"
  using HTTP_returns_receiver CLI_returns_receiver
    HTTP_mode_returns [of h p hp c] HTTP_Within_returns [of hE p hpE d]
    HTTP_For_returns [of hC p hpC d]
    CLI_mode_returns [of h q cp c'] CLI_Within_returns [of hE q cpE d]
    CLI_For_returns [of hC q cpC d]
  by simp

theorem builders_return_receiver_witness:
  "fst (HTTPPlan_Eventually 2 exHeap) = Inr 2 \<and>
   fst (HTTPPlan_Consistently 2 exHeap) = Inr 2 \<and>
   fst (HTTPPlan_Within 7 2 exHeapE) = Inr 2 \<and>
   fst (HTTPPlan_For 7 2 exHeapC) = Inr 2 \<and>
   fst (CLIPlan_Eventually 3 exHeap) = Inr 3 \<and>
   fst (CLIPlan_Consistently 3 exHeap) = Inr 3 \<and>
   fst (CLIPlan_Within 7 3 exHeapE) = Inr 3 \<and>
   fst (CLIPlan_For 7 3 exHeapC) = Inr 3"
  using builders_return_receiver [where h = exHeap and p = 2 and q = 3 and d = 7
      and c = exConfig and c' = exConfig
      and hp = exHTTPPlan and cp = exCLIPlan and hE = exHeapE and hC = exHeapC
      and hpE = "exHTTPPlan\<lparr>timing := TimingEventually, timeout := 9\<rparr>"
      and cpE = "exCLIPlan\<lparr>timing := TimingEventually, timeout := 9\<rparr>"
      and hpC = "exHTTPPlan\<lparr>timing := TimingConsistently, timeout := 9\<rparr>"
      and cpC = "exCLIPlan\<lparr>timing := TimingConsistently, timeout := 9\<rparr>"]
  by (simp add: ex_defs)

text \<open>
  Claim C7. For every live plan, \<open>T()\<close> returns the Assert of the matching kind
  (\<open>HTTPPlan_T\<close> an \<open>HTTPAssert\<close>, \<open>CLIPlan_T\<close> a \<open>CLIAssert\<close>) whose \<open>plan\<close> is the plan
  it was called on and whose \<open>config\<close> is the very config pointer the plan carries; the
  store is unchanged.
\<close>

theorem T_wraps_plan_and_config:
  "(httpPlans h p = Some hp \<longrightarrow>
      HTTPPlan_T p h = (Inr \<lparr>assert_config = config hp, http_plan = p\<rparr>, h)) \<and>
   (cliPlans h q = Some cp \<longrightarrow>
      CLIPlan_T q h = (Inr \<lparr>assert_config = config cp, cli_plan = q\<rparr>, h))"
  by (simp add: HTTPPlan_T_def CLIPlan_T_def)

theorem T_wraps_plan_and_config_witness:
  "HTTPPlan_T 2 exHeap = (Inr \<lparr>assert_config = 1, http_plan = 2\<rparr>, exHeap) \<and>
   CLIPlan_T 3 exHeap = (Inr \<lparr>assert_config = 1, cli_plan = 3\<rparr>, exHeap)"
  using T_wraps_plan_and_config [of exHeap 2 exHTTPPlan 3 exCLIPlan]
  by (simp add: ex_defs)

text \<open>
  Claim C10. For every plan, \<open>Eventually()\<close> and \<open>Consistently()\<close> are accepted in any
  timing state, also after the other mode was selected, and each overwrites both the
  timing mode and the duration: the result does not depend on the timing and the
  duration the plan had, so a duration set by \<open>Within\<close> or \<open>For\<close> is discarded. The
  default written is the config's \<open>DefaultRetryTimeout\<close> in both methods.
\<close>

theorem Eventually_Consistently_overwrite:
  "(httpPlans h p = Some hp \<and> configs h (config hp) = Some c \<longrightarrow>
      HTTPPlan_Eventually p h =
        (Inr p, h\<lparr>httpPlans := (httpPlans h)(p \<mapsto>
           hp\<lparr>timing := TimingEventually, timeout := DefaultRetryTimeout c\<rparr>)\<rparr>) \<and>
      HTTPPlan_Consistently p h =
        (Inr p, h\<lparr>httpPlans := (httpPlans h)(p \<mapsto>
           hp\<lparr>timing := TimingConsistently, timeout := DefaultRetryTimeout c\<rparr>)\<rparr>)) \<and>
   (cliPlans h q = Some cp \<and> configs h (config cp) = Some c' \<longrightarrow>
      CLIPlan_Eventually q h =
        (Inr q, h\<lparr>cliPlans := (cliPlans h)(q \<mapsto>
           cp\<lparr>timing := TimingEventually, timeout := DefaultRetryTimeout c'\<rparr>)\<rparr>) \<and>
      CLIPlan_Consistently q h =
        (Inr q, h\<lparr>cliPlans := (cliPlans h)(q \<mapsto>
           cp\<lparr>timing := TimingConsistently, timeout := DefaultRetryTimeout c'\<rparr>)\<rparr>))"
  by (simp add: HTTP_defs CLI_defs set_defs)

theorem Eventually_Consistently_overwrite_witness:
  "HTTPPlan_Eventually 2 exHeapE =
     (Inr 2, exHeapE\<lparr>httpPlans :=
        [2 \<mapsto> exHTTPPlan\<lparr>timing := TimingEventually, timeout := 5\<rparr>]\<rparr>) \<and>
   HTTPPlan_Consistently 2 exHeapE =
     (Inr 2, exHeapE\<lparr>httpPlans :=
        [2 \<mapsto> exHTTPPlan\<lparr>timing := TimingConsistently, timeout := 5\<rparr>]\<rparr>) \<and>
   CLIPlan_Eventually 3 exHeapC =
     (Inr 3, exHeapC\<lparr>cliPlans :=
        [3 \<mapsto> exCLIPlan\<lparr>timing := TimingEventually, timeout := 5\<rparr>]\<rparr>) \<and>
   CLIPlan_Consistently 3 exHeapC =
     (Inr 3, exHeapC\<lparr>cliPlans :=
        [3 \<mapsto> exCLIPlan\<lparr>timing := TimingConsistently, timeout := 5\<rparr>]\<rparr>)"
  using Eventually_Consistently_overwrite [where h = exHeapE and p = 2 and c = exConfig
      and hp = "exHTTPPlan\<lparr>timing := TimingEventually, timeout := 9\<rparr>"]
    Eventually_Consistently_overwrite [where h = exHeapC and q = 3 and c' = exConfig
      and cp = "exCLIPlan\<lparr>timing := TimingConsistently, timeout := 9\<rparr>"]
  by (simp add: ex_defs)

section \<open>Properties of the progress file\<close>

text \<open>
  Claim C8. For every State whose \<open>Challenge\<close> contains no colon and whose \<open>Challenge\<close>
  and \<open>Stage\<close> each equal their own trimmed form: when \<open>SaveTo\<close> writes it to the path
  that \<open>Load\<close> reads and reports no error, and the file it wrote can be read, \<open>Load\<close> on
  the resulting file system returns a State equal to the original. Both happen where the
  path is free, a file can be created there and a created file can be read, and where
  the path holds a file that can be read and written, provided the write completes: then
  \<open>SaveTo\<close> reports no error and \<open>Load\<close> returns the original State.
\<close>

theorem SaveTo_Load_roundtrip:
  "(CHR '':'' \<notin> set (Challenge st) \<and> TrimSpace (Challenge st) = Challenge st \<and>
    TrimSpace (Stage st) = Stage st \<and> SaveTo st statePath fs = (None, fs') \<and>
    nodes fs' statePath = Some (File None we bytes) \<longrightarrow>
      Load fs' = Inr st) \<and>
   (CHR '':'' \<notin> set (Challenge st) \<and> TrimSpace (Challenge st) = Challenge st \<and>
    TrimSpace (Stage st) = Stage st \<and> nodes fs statePath = None \<and>
    createError fs statePath = None \<and> createdRead fs = None \<and>
    writeError fs statePath = None \<longrightarrow>
      fst (SaveTo st statePath fs) = None \<and> Load (snd (SaveTo st statePath fs)) = Inr st) \<and>
   (CHR '':'' \<notin> set (Challenge st) \<and> TrimSpace (Challenge st) = Challenge st \<and>
    TrimSpace (Stage st) = Stage st \<and> nodes fs statePath = Some (File None None old) \<and>
    writeError fs statePath = None \<longrightarrow>
      fst (SaveTo st statePath fs) = None \<and> Load (snd (SaveTo st statePath fs)) = Inr st)"
proof (intro conjI; rule impI; elim conjE)
  assume c: "CHR '':'' \<notin> set (Challenge st)" "TrimSpace (Challenge st) = Challenge st"
    "TrimSpace (Stage st) = Stage st"
  assume "SaveTo st statePath fs = (None, fs')"
    and r: "nodes fs' statePath = Some (File None we bytes)"
  then have "bytes = Challenge st @ '':'' @ Stage st @ [CHR 0x0A]"
    using SaveTo_ok [of st statePath fs fs'] by auto
  with r show "Load fs' = Inr st"
    using Load_record [OF c, of fs' we] by simp
next
  assume c: "CHR '':'' \<notin> set (Challenge st)" "TrimSpace (Challenge st) = Challenge st"
    "TrimSpace (Stage st) = Stage st"
  assume f: "nodes fs statePath = None" "createError fs statePath = None"
    "writeError fs statePath = None" and r: "createdRead fs = None"
  show "fst (SaveTo st statePath fs) = None \<and> Load (snd (SaveTo st statePath fs)) = Inr st"
    using r Load_record [OF c] by (simp add: SaveTo_creates [OF f])
next
  assume c: "CHR '':'' \<notin> set (Challenge st)" "TrimSpace (Challenge st) = Challenge st"
    "TrimSpace (Stage st) = Stage st"
  assume f: "nodes fs statePath = Some (File None None old)" "writeError fs statePath = None"
  show "fst (SaveTo st statePath fs) = None \<and> Load (snd (SaveTo st statePath fs)) = Inr st"
    using Load_record [OF c] by (simp add: SaveTo_overwrites [OF f])
qed

theorem SaveTo_Load_roundtrip_witness:
  "fst (SaveTo \<lparr>Challenge = ''kv-store'', Stage = ''http-api''\<rparr> statePath exFS) = None \<and>
   nodes (snd (SaveTo \<lparr>Challenge = ''kv-store'', Stage = ''http-api''\<rparr> statePath exFS))
       statePath
     = Some (File None None (''kv-store:http-api'' @ [CHR 0x0A])) \<and>
   Load (snd (SaveTo \<lparr>Challenge = ''kv-store'', Stage = ''http-api''\<rparr> statePath exFS))
     = Inr \<lparr>Challenge = ''kv-store'', Stage = ''http-api''\<rparr> \<and>
   fst (SaveTo \<lparr>Challenge = ''kv-store'', Stage = ''http-api''\<rparr> statePath
       (exFS\<lparr>nodes := [statePath \<mapsto> File None None ''kv-store:tcp-server'']\<rparr>)) = None \<and>
   Load (snd (SaveTo \<lparr>Challenge = ''kv-store'', Stage = ''http-api''\<rparr> statePath
       (exFS\<lparr>nodes := [statePath \<mapsto> File None None ''kv-store:tcp-server'']\<rparr>)))
     = Inr \<lparr>Challenge = ''kv-store'', Stage = ''http-api''\<rparr>"
proof -
  have c: "TrimSpace ''kv-store'' = ''kv-store''" by code_simp
  have s: "TrimSpace ''http-api'' = ''http-api''" by code_simp
  have w: "SaveTo \<lparr>Challenge = ''kv-store'', Stage = ''http-api''\<rparr> statePath exFS =
      (None, exFS\<lparr>nodes := [statePath \<mapsto> File None None (''kv-store:http-api'' @ [CHR 0x0A])]\<rparr>)"
    by (simp add: SaveTo_def os_WriteFile_def writeBytes_def exFS_def)
  have a: "Load (exFS\<lparr>nodes := [statePath \<mapsto> File None None (''kv-store:http-api'' @ [CHR 0x0A])]\<rparr>)
      = Inr \<lparr>Challenge = ''kv-store'', Stage = ''http-api''\<rparr>"
    using c s w SaveTo_Load_roundtrip [of "\<lparr>Challenge = ''kv-store'', Stage = ''http-api''\<rparr>"
        exFS "exFS\<lparr>nodes := [statePath \<mapsto> File None None (''kv-store:http-api'' @ [CHR 0x0A])]\<rparr>"
        None "''kv-store:http-api'' @ [CHR 0x0A]"]
    by simp
  have b: "fst (SaveTo \<lparr>Challenge = ''kv-store'', Stage = ''http-api''\<rparr> statePath exFS) = None \<and>
      Load (snd (SaveTo \<lparr>Challenge = ''kv-store'', Stage = ''http-api''\<rparr> statePath exFS))
        = Inr \<lparr>Challenge = ''kv-store'', Stage = ''http-api''\<rparr>"
    using c s SaveTo_Load_roundtrip [of "\<lparr>Challenge = ''kv-store'', Stage = ''http-api''\<rparr>" exFS]
    by (simp add: exFS_def)
  have d: "fst (SaveTo \<lparr>Challenge = ''kv-store'', Stage = ''http-api''\<rparr> statePath
        (exFS\<lparr>nodes := [statePath \<mapsto> File None None ''kv-store:tcp-server'']\<rparr>)) = None \<and>
      Load (snd (SaveTo \<lparr>Challenge = ''kv-store'', Stage = ''http-api''\<rparr> statePath
        (exFS\<lparr>nodes := [statePath \<mapsto> File None None ''kv-store:tcp-server'']\<rparr>)))
        = Inr \<lparr>Challenge = ''kv-store'', Stage = ''http-api''\<rparr>"
    using c s SaveTo_Load_roundtrip [of "\<lparr>Challenge = ''kv-store'', Stage = ''http-api''\<rparr>"
        "exFS\<lparr>nodes := [statePath \<mapsto> File None None ''kv-store:tcp-server'']\<rparr>" _ _ _
        "''kv-store:tcp-server''"]
    by (simp add: exFS_def)
  from a b d w show ?thesis by simp
qed

text \<open>
  Claim C9. \<open>Load\<close> returns an error exactly when the file \<open>lc.state\<close> does not exist,
  cannot be read (it is a directory, or reading it gives an error), or has no colon in
  its trimmed content. Otherwise the trimmed content is cut at its first colon only: with
  \<open>a\<close> the part before the first colon and \<open>b\<close> everything after it, colons included,
  \<open>Load\<close> returns the trimmed \<open>a\<close> as Challenge and the trimmed \<open>b\<close> as Stage; both
  returned fields are trimmed.
\<close>

theorem Load_errors_and_split:
  "(isl (Load fs) \<longleftrightarrow>
      nodes fs statePath = None \<or> nodes fs statePath = Some Dir \<or>
      (\<exists>e we bytes. nodes fs statePath = Some (File (Some e) we bytes)) \<or>
      (\<exists>we bytes. nodes fs statePath = Some (File None we bytes) \<and>
         CHR '':'' \<notin> set (TrimSpace bytes))) \<and>
   (nodes fs statePath = Some (File None we bytes) \<and> TrimSpace bytes = a @ CHR '':'' # b \<and>
    CHR '':'' \<notin> set a \<longrightarrow>
      Load fs = Inr \<lparr>Challenge = TrimSpace a, Stage = TrimSpace b\<rparr>) \<and>
   (Load fs = Inr st \<longrightarrow>
      TrimSpace (Challenge st) = Challenge st \<and> TrimSpace (Stage st) = Stage st)"
proof (intro conjI)
  show "isl (Load fs) \<longleftrightarrow>
      nodes fs statePath = None \<or> nodes fs statePath = Some Dir \<or>
      (\<exists>e we bytes. nodes fs statePath = Some (File (Some e) we bytes)) \<or>
      (\<exists>we bytes. nodes fs statePath = Some (File None we bytes) \<and>
         CHR '':'' \<notin> set (TrimSpace bytes))"
    by (rule Load_error_iff)
  show "nodes fs statePath = Some (File None we bytes) \<and> TrimSpace bytes = a @ CHR '':'' # b \<and>
    CHR '':'' \<notin> set a \<longrightarrow>
      Load fs = Inr \<lparr>Challenge = TrimSpace a, Stage = TrimSpace b\<rparr>"
    using Load_split by blast
  show "Load fs = Inr st \<longrightarrow>
      TrimSpace (Challenge st) = Challenge st \<and> TrimSpace (Stage st) = Stage st"
  proof
    assume ok: "Load fs = Inr st"
    then have "\<not> isl (Load fs)" by simp
    then obtain we' bytes' where f: "nodes fs statePath = Some (File None we' bytes')"
      and "CHR '':'' \<in> set (TrimSpace bytes')"
      using Load_error_iff [of fs]
      by (cases "nodes fs statePath") (auto, metis node.exhaust option.exhaust)
    with ok show "TrimSpace (Challenge st) = Challenge st \<and> TrimSpace (Stage st) = Stage st"
      by (auto simp: Load_File TrimSpace_idem)
  qed
qed

theorem Load_errors_and_split_witness:
  "isl (Load exFS) \<and>
   isl (Load (exFS\<lparr>nodes := [statePath \<mapsto> Dir]\<rparr>)) \<and>
   isl (Load (exFS\<lparr>nodes := [statePath \<mapsto> File (Some EACCES) None ''kv-store:http-api'']\<rparr>)) \<and>
   isl (Load (exFS\<lparr>nodes := [statePath \<mapsto> File None None ''  kv-store  '']\<rparr>)) \<and>
   Load (exFS\<lparr>nodes :=
       [statePath \<mapsto> File None None ('' kv-store : http-api:v2 '' @ [CHR 0x0A])]\<rparr>) =
     Inr \<lparr>Challenge = ''kv-store'', Stage = ''http-api:v2''\<rparr> \<and>
   TrimSpace ''http-api:v2'' = ''http-api:v2''"
proof -
  have t0: "TrimSpace ''  kv-store  '' = ''kv-store''" by code_simp
  have t1: "TrimSpace ('' kv-store : http-api:v2 '' @ [CHR 0x0A])
      = ''kv-store '' @ CHR '':'' # '' http-api:v2''" by code_simp
  have t2: "TrimSpace ''kv-store '' = ''kv-store''" by code_simp
  have t3: "TrimSpace '' http-api:v2'' = ''http-api:v2''" by code_simp
  have e1: "isl (Load exFS)"
    using Load_errors_and_split [of exFS] by (simp add: exFS_def)
  have e2: "isl (Load (exFS\<lparr>nodes := [statePath \<mapsto> Dir]\<rparr>))"
    using Load_errors_and_split [of "exFS\<lparr>nodes := [statePath \<mapsto> Dir]\<rparr>"] by simp
  have e3: "isl (Load (exFS\<lparr>nodes :=
      [statePath \<mapsto> File (Some EACCES) None ''kv-store:http-api'']\<rparr>))"
    using Load_errors_and_split
      [of "exFS\<lparr>nodes := [statePath \<mapsto> File (Some EACCES) None ''kv-store:http-api'']\<rparr>"]
    by simp
  have e4: "isl (Load (exFS\<lparr>nodes := [statePath \<mapsto> File None None ''  kv-store  '']\<rparr>))"
    using t0 Load_errors_and_split
      [of "exFS\<lparr>nodes := [statePath \<mapsto> File None None ''  kv-store  '']\<rparr>"]
    by simp
  have ok: "Load (exFS\<lparr>nodes :=
       [statePath \<mapsto> File None None ('' kv-store : http-api:v2 '' @ [CHR 0x0A])]\<rparr>) =
     Inr \<lparr>Challenge = ''kv-store'', Stage = ''http-api:v2''\<rparr>"
    using t1 t2 t3 Load_errors_and_split
      [of "exFS\<lparr>nodes :=
          [statePath \<mapsto> File None None ('' kv-store : http-api:v2 '' @ [CHR 0x0A])]\<rparr>"
        None "'' kv-store : http-api:v2 '' @ [CHR 0x0A]" "''kv-store ''" "'' http-api:v2''"]
    by simp
  have tr: "TrimSpace ''http-api:v2'' = ''http-api:v2''"
    using ok Load_errors_and_split
      [of "exFS\<lparr>nodes :=
          [statePath \<mapsto> File None None ('' kv-store : http-api:v2 '' @ [CHR 0x0A])]\<rparr>" _ _ _ _
        "\<lparr>Challenge = ''kv-store'', Stage = ''http-api:v2''\<rparr>"]
    by simp
  from e1 e2 e3 e4 ok tr show ?thesis by simp
qed

end
